theory Spec2Isabelle
  imports Complex_Main "HOL-Library.Multiset" "HOL-Library.Sublist"
begin

section \<open>The isotope production pipeline of app.py\<close>

text \<open>
  The script holds its data in a data frame and transforms it column by column. A frame is
  modelled as the list of its rows, a column operation as the same operation on every row.
  Floating-point production figures are modelled as reals; the missing-value marker NaN of a
  numeric column is \<open>None\<close> of \<open>real option\<close>. Strings are byte strings, so a source
  string is covered as far as its characters lie in Latin-1.
\<close>

subsection \<open>Data model\<close>

text \<open>
  One cell of the table as read from the CSV file: a number (the column was numeric), a
  string (the column holds text), or the missing-value marker.
\<close>

datatype cell = Num real | Str string | Missing

record raw_row =
  raw_Country :: string
  raw_Major_Isotopes :: cell
  raw_Total_Production_TBq :: cell

record row =
  Country :: string
  Major_Isotopes :: cell
  Total_Production_TBq :: real
  Latitude :: real
  Longitude :: real
  ISO :: string
  Isotope_List :: "string list"

subsection \<open>Reference tables\<close>

text \<open>A Python dict literal is an association list; \<open>d.get(k, default)\<close> never raises.\<close>

definition dict_get :: "('k \<times> 'v) list \<Rightarrow> 'k \<Rightarrow> 'v \<Rightarrow> 'v" where
  "dict_get d k dflt = (case map_of d k of None \<Rightarrow> dflt | Some v \<Rightarrow> v)"

definition COUNTRY_COORDS :: "(string \<times> (string \<times> real) list) list" where
  "COUNTRY_COORDS =
   [(''Australia'', [(''lat'', - 25.27), (''lon'', 133.78)]),
    (''Austria'', [(''lat'', 47.52), (''lon'', 14.55)]),
    (''Belarus'', [(''lat'', 53.71), (''lon'', 27.95)]),
    (''Belgium'', [(''lat'', 50.50), (''lon'', 4.47)]),
    (''Brazil'', [(''lat'', - 14.24), (''lon'', - 51.93)]),
    (''Chile'', [(''lat'', - 35.68), (''lon'', - 71.54)]),
    (''Czech Republic'', [(''lat'', 49.82), (''lon'', 15.47)]),
    (''Egypt'', [(''lat'', 26.82), (''lon'', 30.80)]),
    (''European Commission'', [(''lat'', 50.85), (''lon'', 4.35)]),
    (''Finland'', [(''lat'', 61.92), (''lon'', 25.75)]),
    (''France'', [(''lat'', 46.23), (''lon'', 2.21)]),
    (''Germany'', [(''lat'', 51.17), (''lon'', 10.45)]),
    (''India'', [(''lat'', 20.59), (''lon'', 78.96)]),
    (''Indonesia'', [(''lat'', - 0.79), (''lon'', 113.92)]),
    (''Iran'', [(''lat'', 32.43), (''lon'', 53.69)]),
    (''Japan'', [(''lat'', 36.20), (''lon'', 138.25)]),
    (''Korea'', [(''lat'', 35.91), (''lon'', 127.77)]),
    (''Pakistan'', [(''lat'', 30.38), (''lon'', 69.35)]),
    (''South Africa'', [(''lat'', - 30.56), (''lon'', 22.94)]),
    (''Spain'', [(''lat'', 40.46), (''lon'', - 3.75)]),
    (''Switzerland'', [(''lat'', 46.82), (''lon'', 8.23)]),
    (''Syria'', [(''lat'', 34.80), (''lon'', 38.99)]),
    (''Turkey'', [(''lat'', 38.96), (''lon'', 35.24)]),
    (''USA'', [(''lat'', 37.09), (''lon'', - 95.71)])]"

definition ISO_CODES :: "(string \<times> string) list" where
  "ISO_CODES =
   [(''Australia'', ''AUS''),
    (''Austria'', ''AUT''),
    (''Belarus'', ''BLR''),
    (''Belgium'', ''BEL''),
    (''Brazil'', ''BRA''),
    (''Chile'', ''CHL''),
    (''Czech Republic'', ''CZE''),
    (''Egypt'', ''EGY''),
    (''European Commission'', ''EUR''),
    (''Finland'', ''FIN''),
    (''France'', ''FRA''),
    (''Germany'', ''DEU''),
    (''India'', ''IND''),
    (''Indonesia'', ''IDN''),
    (''Iran'', ''IRN''),
    (''Japan'', ''JPN''),
    (''Korea'', ''KOR''),
    (''Pakistan'', ''PAK''),
    (''South Africa'', ''ZAF''),
    (''Spain'', ''ESP''),
    (''Switzerland'', ''CHE''),
    (''Syria'', ''SYR''),
    (''Turkey'', ''TUR''),
    (''USA'', ''USA'')]"

text \<open>The three lambdas mapped over the \<open>Country\<close> column (lines 116 to 118).\<close>

definition Latitude_of :: "string \<Rightarrow> real" where
  "Latitude_of x = dict_get (dict_get COUNTRY_COORDS x []) ''lat'' 0"

definition Longitude_of :: "string \<Rightarrow> real" where
  "Longitude_of x = dict_get (dict_get COUNTRY_COORDS x []) ''lon'' 0"

definition ISO_of :: "string \<Rightarrow> string" where
  "ISO_of x = dict_get ISO_CODES x ''''"

subsection \<open>Cleaning the production column\<close>

text \<open>
  \<open>pd.to_numeric(column, errors='coerce')\<close>: a number stays, a string goes through the
  library's numeric-literal parser and becomes NaN where that fails, a missing cell is NaN.
  The parser belongs to the library, not to the script, and is a parameter \<open>parse\<close>.
\<close>

definition to_numeric :: "(string \<Rightarrow> real option) \<Rightarrow> cell \<Rightarrow> real option" where
  "to_numeric parse c = (case c of Num x \<Rightarrow> Some x | Str s \<Rightarrow> parse s | Missing \<Rightarrow> None)"

text \<open>
  \<open>fillna(v)\<close> replaces NaN by \<open>v\<close> and keeps every other value. The script calls it in
  place on the selected column, which updates the column of the frame (as the library does
  where copy-on-write is not in force).
\<close>

definition fillna :: "real \<Rightarrow> real option \<Rightarrow> real" where
  "fillna v x = (case x of None \<Rightarrow> v | Some y \<Rightarrow> y)"

text \<open>
  A parser to run the model on concrete rows: an optional minus sign and a non-empty run
  of decimal digits.
\<close>

definition digit_val :: "char \<Rightarrow> nat option" where
  "digit_val c =
     map_of [(CHR ''0'', 0), (CHR ''1'', 1), (CHR ''2'', 2), (CHR ''3'', 3), (CHR ''4'', 4),
       (CHR ''5'', 5), (CHR ''6'', 6), (CHR ''7'', 7), (CHR ''8'', 8), (CHR ''9'', 9)] c"

fun parse_digits :: "string \<Rightarrow> nat \<Rightarrow> nat option" where
  "parse_digits [] acc = Some acc"
| "parse_digits (c # cs) acc =
     (case digit_val c of None \<Rightarrow> None | Some d \<Rightarrow> parse_digits cs (10 * acc + d))"

definition parse_decimal :: "string \<Rightarrow> real option" where
  "parse_decimal s =
     (case s of
        [] \<Rightarrow> None
      | c # cs \<Rightarrow>
          if c = CHR ''-'' then
            (if cs = [] then None else map_option (\<lambda>n. - real n) (parse_digits cs 0))
          else map_option real (parse_digits s 0))"

subsection \<open>Splitting the isotope field\<close>

text \<open>\<open>str.split(',')\<close>: the pieces between commas; the empty string gives one empty piece.\<close>

fun split_comma :: "string \<Rightarrow> string list" where
  "split_comma [] = [[]]"
| "split_comma (c # cs) =
     (if c = CHR '','' then [] # split_comma cs
      else (case split_comma cs of [] \<Rightarrow> [[c]] | w # ws \<Rightarrow> (c # w) # ws))"

text \<open>The characters \<open>str.strip()\<close> removes: those for which \<open>str.isspace\<close> holds.\<close>

definition isspace :: "char \<Rightarrow> bool" where
  "isspace c \<longleftrightarrow> c \<in> set [CHR 0x09, CHR 0x0A, CHR 0x0B, CHR 0x0C, CHR 0x0D, CHR 0x1C, CHR 0x1D,
     CHR 0x1E, CHR 0x1F, CHR '' '', CHR 0x85, CHR 0xA0]"

definition strip :: "string \<Rightarrow> string" where
  "strip s = rev (dropWhile isspace (rev (dropWhile isspace s)))"

text \<open>The lambda applied to the \<open>Major_Isotopes\<close> column (lines 121 to 123).\<close>

definition make_Isotope_List :: "cell \<Rightarrow> string list" where
  "make_Isotope_List x = (case x of Str s \<Rightarrow> map strip (split_comma s) | _ \<Rightarrow> [])"

subsection \<open>Row normalisation and the canonical data frame\<close>

definition normalize :: "(string \<Rightarrow> real option) \<Rightarrow> raw_row \<Rightarrow> row" where
  "normalize parse r =
     \<lparr>Country = raw_Country r,
      Major_Isotopes = raw_Major_Isotopes r,
      Total_Production_TBq = fillna 0 (to_numeric parse (raw_Total_Production_TBq r)),
      Latitude = Latitude_of (raw_Country r),
      Longitude = Longitude_of (raw_Country r),
      ISO = ISO_of (raw_Country r),
      Isotope_List = make_Isotope_List (raw_Major_Isotopes r)\<rparr>"



text \<open>\<open>','.join(pieces)\<close>, the inverse of the split.\<close>

fun join_comma :: "string list \<Rightarrow> string" where
  "join_comma [] = []"
| "join_comma [w] = w"
| "join_comma (w # v # ws) = w @ CHR '','' # join_comma (v # ws)"

text \<open>
  The reading of the specification: the number of comma-separated segments that are
  non-empty after trimming.
\<close>

definition nonempty_trimmed_segments :: "string \<Rightarrow> nat" where
  "nonempty_trimmed_segments s = length (filter (\<lambda>w. w \<noteq> []) (map strip (split_comma s)))"

subsection \<open>Filter\<close>

text \<open>\<open>column.isin(values)\<close>, per row.\<close>

definition isin :: "'a \<Rightarrow> 'a list \<Rightarrow> bool" where
  "isin x vals \<longleftrightarrow> x \<in> set vals"

text \<open>\<open>frame[mask]\<close>: the rows whose mask entry is true, in the frame's order.\<close>

fun boolean_index :: "'a list \<Rightarrow> bool list \<Rightarrow> 'a list" where
  "boolean_index (x # xs) (b # bs) =
     (if b then x # boolean_index xs bs else boolean_index xs bs)"
| "boolean_index xs bs = []"

text \<open>
  Lines 141 to 144: two boolean columns, their elementwise conjunction, and the selection
  of the rows by that mask.
\<close>

definition filtered_df :: "row list \<Rightarrow> real \<Rightarrow> string list \<Rightarrow> row list" where
  "filtered_df df min_production selected_countries =
     boolean_index df
       (map2 (\<and>)
         (map (\<lambda>r. min_production \<le> Total_Production_TBq r) df)
         (map (\<lambda>r. isin (Country r) selected_countries) df))"

subsection \<open>Isotope by country matrix\<close>

record matrix_entry =
  entry_Isotope :: string
  entry_Country :: string
  entry_Production :: real

text \<open>Lines 284 to 291: the two nested loops appending to \<open>isotope_matrix\<close>.\<close>

fun matrix_inner :: "row \<Rightarrow> string list \<Rightarrow> matrix_entry list \<Rightarrow> matrix_entry list" where
  "matrix_inner r [] acc = acc"
| "matrix_inner r (isotope # isotopes) acc =
     matrix_inner r isotopes
       (acc @ [\<lparr>entry_Isotope = isotope, entry_Country = Country r,
                entry_Production = Total_Production_TBq r\<rparr>])"

fun matrix_outer :: "row list \<Rightarrow> matrix_entry list \<Rightarrow> matrix_entry list" where
  "matrix_outer [] acc = acc"
| "matrix_outer (r # rs) acc = matrix_outer rs (matrix_inner r (Isotope_List r) acc)"

definition isotope_matrix :: "row list \<Rightarrow> matrix_entry list" where
  "isotope_matrix view = matrix_outer view []"

text \<open>The entries one row stands for: one per isotope, each with the row's production.\<close>

definition entries_of :: "row \<Rightarrow> matrix_entry list" where
  "entries_of r =
     map (\<lambda>isotope. \<lparr>entry_Isotope = isotope, entry_Country = Country r,
            entry_Production = Total_Production_TBq r\<rparr>) (Isotope_List r)"

subsection \<open>Sorting a frame by a column\<close>

text \<open>
  \<open>sort_values(column, ascending=False)\<close> is called with the library's default
  \<open>kind='quicksort'\<close>, which the library documents as not stable. What the call guarantees
  is a rearrangement of the rows in non-increasing order of the column; which of the
  rearrangements it returns when rows tie is left to the library. The model is therefore the
  relation between a frame and each result the call may return.
\<close>

definition sort_values_desc :: "('a \<Rightarrow> 'k::linorder) \<Rightarrow> 'a list \<Rightarrow> 'a list \<Rightarrow> bool" where
  "sort_values_desc key xs ys \<longleftrightarrow> mset ys = mset xs \<and> sorted_wrt (\<lambda>a b. key b \<le> key a) ys"

text \<open>
  One of the admitted results, the one a stable algorithm gives: the library sorts the
  reversed column in ascending order and reverses the outcome, which keeps tied rows in
  their input order when the ascending sort is stable.
\<close>

definition stable_sort_desc :: "('a \<Rightarrow> 'k::linorder) \<Rightarrow> 'a list \<Rightarrow> 'a list" where
  "stable_sort_desc key xs = rev (sort_key key (rev xs))"


subsection \<open>Top producing countries\<close>




subsection \<open>Isotope frequency\<close>

text \<open>Lines 251 to 253: the loop extending \<open>all_isotopes\<close>, over the unfiltered frame.\<close>

fun all_isotopes_loop :: "row list \<Rightarrow> string list \<Rightarrow> string list" where
  "all_isotopes_loop [] acc = acc"
| "all_isotopes_loop (r # rs) acc = all_isotopes_loop rs (acc @ Isotope_List r)"

definition all_isotopes :: "row list \<Rightarrow> string list" where
  "all_isotopes df = all_isotopes_loop df []"

text \<open>
  \<open>value_counts()\<close> first counts the values in a table that keeps its keys in the order
  of their first occurrence, then sorts the table by count, descending, with the same
  default sort as above.
\<close>

fun count_value :: "'a \<Rightarrow> ('a \<times> nat) list \<Rightarrow> ('a \<times> nat) list" where
  "count_value x [] = [(x, 1)]"
| "count_value x ((k, c) # t) =
     (if k = x then (k, Suc c) # t else (k, c) # count_value x t)"

fun count_values :: "'a list \<Rightarrow> ('a \<times> nat) list \<Rightarrow> ('a \<times> nat) list" where
  "count_values [] t = t"
| "count_values (x # xs) t = count_values xs (count_value x t)"

definition isotope_counts :: "row list \<Rightarrow> (string \<times> nat) list \<Rightarrow> bool" where
  "isotope_counts df out \<longleftrightarrow> sort_values_desc snd (count_values (all_isotopes df) []) out"


subsection \<open>Sample tables\<close>







section \<open>Properties\<close>

subsection \<open>Production column\<close>








subsection \<open>Reference tables\<close>

lemma tables_same_keys: "map fst ISO_CODES = map fst COUNTRY_COORDS"
  by (simp add: ISO_CODES_def COUNTRY_COORDS_def)

lemma map_of_None_iff: "map_of d k = None \<longleftrightarrow> k \<notin> fst ` set d"
  by (simp add: map_of_eq_None_iff)

text \<open>
  C9: a country that is not a key of the reference tables (compared as it is written, so
  another spelling or another case is not a key) gets latitude 0, longitude 0 and the empty
  ISO code. The lookups are \<open>dict.get\<close> with a default, which returns for every string.
\<close>

theorem unknown_country_defaults:
  assumes "raw_Country r \<notin> fst ` set COUNTRY_COORDS"
  shows "Latitude (normalize parse r) = 0 \<and> Longitude (normalize parse r) = 0 \<and>
    ISO (normalize parse r) = []"
proof -
  from assms have c: "map_of COUNTRY_COORDS (raw_Country r) = None"
    by (simp add: map_of_None_iff)
  from assms have "raw_Country r \<notin> set (map fst ISO_CODES)"
    by (simp add: tables_same_keys)
  then have i: "map_of ISO_CODES (raw_Country r) = None"
    by (simp add: map_of_None_iff)
  from c have "Latitude_of (raw_Country r) = 0" "Longitude_of (raw_Country r) = 0"
    by (simp_all add: Latitude_of_def Longitude_of_def dict_get_def)
  moreover from i have "ISO_of (raw_Country r) = []"
    by (simp add: ISO_of_def dict_get_def)
  ultimately show ?thesis
    by (simp add: normalize_def)
qed

theorem unknown_country_defaults_witness:
  "''usa'' \<notin> fst ` set COUNTRY_COORDS \<and>
   Latitude (normalize parse_decimal
     \<lparr>raw_Country = ''usa'', raw_Major_Isotopes = Missing,
      raw_Total_Production_TBq = Num 7\<rparr>) = 0 \<and>
   Longitude (normalize parse_decimal
     \<lparr>raw_Country = ''usa'', raw_Major_Isotopes = Missing,
      raw_Total_Production_TBq = Num 7\<rparr>) = 0 \<and>
   ISO (normalize parse_decimal
     \<lparr>raw_Country = ''usa'', raw_Major_Isotopes = Missing,
      raw_Total_Production_TBq = Num 7\<rparr>) = [] \<and>
   ISO_of ''USA'' = ''USA'' \<and> Latitude_of ''USA'' = 37.09"
proof -
  have a: "''usa'' \<notin> fst ` set COUNTRY_COORDS"
    by (simp add: COUNTRY_COORDS_def)
  have b: "ISO_of ''USA'' = ''USA''"
    by (simp add: ISO_of_def dict_get_def ISO_CODES_def)
  have c: "Latitude_of ''USA'' = 37.09"
    by (simp add: Latitude_of_def dict_get_def COUNTRY_COORDS_def)
  show ?thesis
    using a b c unknown_country_defaults [of
      "\<lparr>raw_Country = ''usa'', raw_Major_Isotopes = Missing,
        raw_Total_Production_TBq = Num 7\<rparr>" parse_decimal]
    by simp
qed

subsection \<open>Isotope lists\<close>

lemma split_comma_not_Nil: "split_comma s \<noteq> []"
  by (induction s) (auto split: list.splits)

lemma length_split_comma: "length (split_comma s) = Suc (count_list s CHR '','')"
proof (induction s)
  case Nil
  show ?case by simp
next
  case (Cons c cs)
  then show ?case
    using split_comma_not_Nil [of cs] by (cases "split_comma cs") auto
qed

lemma join_split_comma: "join_comma (split_comma s) = s"
proof (induction s)
  case Nil
  show ?case by simp
next
  case (Cons c cs)
  show ?case
  proof (cases "split_comma cs")
    case Nil
    with split_comma_not_Nil show ?thesis by blast
  next
    case (Cons w ws)
    with Cons.IH show ?thesis
      by (cases ws) auto
  qed
qed

lemma no_comma_in_piece: "w \<in> set (split_comma s) \<Longrightarrow> CHR '','' \<notin> set w"
proof (induction s arbitrary: w)
  case Nil
  then show ?case by simp
next
  case (Cons c cs)
  then show ?case
    by (cases "split_comma cs") (auto split: if_splits)
qed

text \<open>
  C4, as the code has it: for a text field the isotope list is the list of all
  comma-separated pieces, each trimmed, in their order, so its length is the number of commas
  plus one and an empty piece stays as an empty string; a numeric or missing field gives the
  empty list.
\<close>

theorem isotope_list_segments:
  "Isotope_List (normalize parse r) = make_Isotope_List (raw_Major_Isotopes r) \<and>
   make_Isotope_List (Str s) = map strip (split_comma s) \<and>
   join_comma (split_comma s) = s \<and>
   length (make_Isotope_List (Str s)) = Suc (count_list s CHR '','') \<and>
   make_Isotope_List (Num x) = [] \<and>
   make_Isotope_List Missing = []"
  by (simp add: normalize_def make_Isotope_List_def length_split_comma join_split_comma)

text \<open>
  C4 as stated fails: the field \<open>Tc-99m,, I-131\<close> has two non-empty trimmed segments and
  gives a list of three isotopes, the second one empty; a field of one blank gives a list of
  one empty isotope.
\<close>

theorem isotope_list_empty_segment_counterexample:
  "Isotope_List (normalize parse_decimal
     \<lparr>raw_Country = ''Belgium'', raw_Major_Isotopes = Str ''Tc-99m,, I-131'',
      raw_Total_Production_TBq = Num 2000\<rparr>) = [''Tc-99m'', [], ''I-131''] \<and>
   nonempty_trimmed_segments ''Tc-99m,, I-131'' = 2 \<and>
   make_Isotope_List (Str '' '') = [[]] \<and>
   nonempty_trimmed_segments '' '' = 0"
  by (simp add: normalize_def make_Isotope_List_def nonempty_trimmed_segments_def strip_def
      isspace_def)


subsection \<open>Filter\<close>

lemma boolean_index_map2:
  "boolean_index xs (map2 (\<and>) (map p xs) (map q xs)) = filter (\<lambda>x. p x \<and> q x) xs"
  by (induction xs) simp_all

lemma filtered_df_filter:
  "filtered_df df m sel =
     filter (\<lambda>r. m \<le> Total_Production_TBq r \<and> Country r \<in> set sel) df"
  by (simp add: filtered_df_def boolean_index_map2 isin_def)

text \<open>
  C6: the filtered frame is exactly the subsequence of the rows with production at least
  the threshold and country among the selected ones; it is empty exactly when no row
  satisfies both, in particular for an empty selection, and the model has no error result,
  as comparison, \<open>isin\<close> and boolean indexing have none.
\<close>

theorem filtered_df_subsequence:
  "filtered_df df m sel =
     filter (\<lambda>r. m \<le> Total_Production_TBq r \<and> Country r \<in> set sel) df \<and>
   subseq (filtered_df df m sel) df \<and>
   (filtered_df df m sel = [] \<longleftrightarrow>
     \<not> (\<exists>r \<in> set df. m \<le> Total_Production_TBq r \<and> Country r \<in> set sel)) \<and>
   filtered_df df m [] = [] \<and>
   filtered_df [] m sel = []"
proof -
  have "filtered_df df m sel = [] \<longleftrightarrow>
     \<not> (\<exists>r \<in> set df. m \<le> Total_Production_TBq r \<and> Country r \<in> set sel)"
    unfolding filtered_df_filter by (simp add: filter_empty_conv)
  moreover have "subseq (filtered_df df m sel) df"
    unfolding filtered_df_filter by simp
  moreover have "filtered_df df m [] = []" "filtered_df [] m sel = []"
    unfolding filtered_df_filter by simp_all
  ultimately show ?thesis
    using filtered_df_filter by blast
qed

text \<open>
  C10: filtering a filtered frame again with the same threshold and selection changes
  nothing.
\<close>

theorem filtered_df_idempotent:
  "filtered_df (filtered_df df m sel) m sel = filtered_df df m sel"
  by (simp add: filtered_df_filter)

subsection \<open>Isotope by country matrix\<close>

lemma matrix_inner_append:
  "matrix_inner r isotopes acc =
     acc @ map (\<lambda>isotope. \<lparr>entry_Isotope = isotope, entry_Country = Country r,
                 entry_Production = Total_Production_TBq r\<rparr>) isotopes"
  by (induction isotopes arbitrary: acc) simp_all

lemma matrix_outer_append: "matrix_outer rs acc = acc @ concat (map entries_of rs)"
  by (induction rs arbitrary: acc) (simp_all add: matrix_inner_append entries_of_def)

lemma isotope_matrix_concat: "isotope_matrix view = concat (map entries_of view)"
  by (simp add: isotope_matrix_def matrix_outer_append)

lemma length_entries_of: "length (entries_of r) = length (Isotope_List r)"
  by (simp add: entries_of_def)

text \<open>
  C2: the matrix is the concatenation, row by row, of one entry per isotope of the row,
  each carrying the row's country and its whole production; so it has as many entries as
  the rows have isotopes in total, and the empty view gives the empty matrix.
\<close>

theorem isotope_matrix_entries:
  "isotope_matrix view = concat (map entries_of view) \<and>
   entries_of r =
     map (\<lambda>isotope. \<lparr>entry_Isotope = isotope, entry_Country = Country r,
            entry_Production = Total_Production_TBq r\<rparr>) (Isotope_List r) \<and>
   length (isotope_matrix view) = sum_list (map (\<lambda>r. length (Isotope_List r)) view) \<and>
   isotope_matrix [] = []"
proof -
  have "length (concat (map entries_of view)) =
      sum_list (map (\<lambda>r. length (Isotope_List r)) view)"
    by (induction view) (simp_all add: length_entries_of)
  then show ?thesis
    by (simp add: isotope_matrix_concat entries_of_def)
qed

lemma isotope_matrix_example:
  "isotope_matrix (filtered_df
     [\<lparr>Country = ''Belgium'', Major_Isotopes = Str ''Mo-99, I-131'',
       Total_Production_TBq = 2000, Latitude = 50.50, Longitude = 4.47, ISO = ''BEL'',
       Isotope_List = [''Mo-99'', ''I-131'']\<rparr>] 500 [''Belgium'']) =
   [\<lparr>entry_Isotope = ''Mo-99'', entry_Country = ''Belgium'', entry_Production = 2000\<rparr>,
    \<lparr>entry_Isotope = ''I-131'', entry_Country = ''Belgium'', entry_Production = 2000\<rparr>]"
  by (simp add: isotope_matrix_def filtered_df_def isin_def)


subsection \<open>Sorting\<close>

lemma sort_values_desc_stable: "sort_values_desc key xs (stable_sort_desc key xs)"
proof -
  have "sorted (map key (sort_key key (rev xs)))"
    by simp
  then have "sorted_wrt (\<lambda>a b. key a \<le> key b) (sort_key key (rev xs))"
    by (simp add: sorted_map)
  then have "sorted_wrt (\<lambda>a b. key b \<le> key a) (rev (sort_key key (rev xs)))"
    by (simp add: sorted_wrt_rev)
  then show ?thesis
    by (simp add: sort_values_desc_def stable_sort_desc_def)
qed


subsection \<open>Sample tables\<close>










subsection \<open>Top producing countries\<close>







subsection \<open>Isotope frequency\<close>





lemma keys_count_value:
  "map fst (count_value x t) = (if x \<in> set (map fst t) then map fst t else map fst t @ [x])"
proof (induction t)
  case Nil
  show ?case by simp
next
  case (Cons p t)
  obtain k c where p: "p = (k, c)"
    by (cases p)
  show ?case
  proof (cases "k = x")
    case True
    with p show ?thesis by simp
  next
    case False
    with p Cons.IH show ?thesis
      by (cases "x \<in> set (map fst t)") simp_all
  qed
qed




lemma first_seen_keys: "map fst (count_values xs t) = map fst t @ rev (remdups (rev
    (filter (\<lambda>x. x \<notin> set (map fst t)) xs)))"
proof (induction xs arbitrary: t)
  case Nil
  show ?case by simp
next
  case (Cons x xs)
  show ?case
  proof (cases "x \<in> set (map fst t)")
    case True
    then show ?thesis
      by (simp add: Cons.IH keys_count_value)
  next
    case False
    have "filter (\<lambda>y. y \<notin> set (map fst t @ [x])) xs =
        filter (\<lambda>y. y \<noteq> x) (filter (\<lambda>y. y \<notin> set (map fst t)) xs)"
      by (auto intro: filter_cong)
    moreover have "rev (remdups (rev (x # ys))) =
        x # rev (remdups (rev (filter (\<lambda>y. y \<noteq> x) ys)))" for ys :: "'a list"
    proof -
      have "remdups (zs @ [x]) = filter (\<lambda>y. y \<noteq> x) (remdups zs) @ [x]" for zs :: "'a list"
        by (induction zs) auto
      then have "remdups (rev ys @ [x]) = remdups (filter (\<lambda>y. y \<noteq> x) (rev ys)) @ [x]"
        by (simp add: remdups_filter)
      then show ?thesis
        by (simp add: rev_filter)
    qed
    ultimately show ?thesis
      using False by (simp add: Cons.IH keys_count_value)
  qed
qed

lemma first_seen_order: "map fst (count_values xs []) = rev (remdups (rev xs))"
  by (simp add: first_seen_keys)

lemma isotope_counts_stable:
  "isotope_counts df (stable_sort_desc snd (count_values (all_isotopes df) []))"
  by (simp add: isotope_counts_def sort_values_desc_stable)








end
